theory Spec2Isabelle
  imports Main
begin

section \<open>Data model\<close>

text \<open>
  The address service of the repository (\<^verbatim>\<open>src/address/address.service.ts\<close>) works on
  rows of the address table and on four request objects. The request and response
  classes (\<^verbatim>\<open>model/address.model.ts\<close>) and the generated row types are not part of the
  sources at hand; their fields are the ones the service reads and writes. Identifiers
  are database integers, texts are strings: every row the service writes carries all five
  texts, and a column left empty by another writer of the table is not represented.
  Fields of different records share their names, as in the source, and are written
  qualified: \<open>Address.id a\<close>.
\<close>

record User =
  username :: string

record Contact =
  id :: int
  username :: string

record Address =
  id :: int
  contact_id :: int
  street :: string
  city :: string
  province :: string
  country :: string
  postal_code :: string

record CreateAddressRequest =
  contact_id :: int
  street :: string
  city :: string
  province :: string
  country :: string
  postal_code :: string

record GetAddressRequest =
  contact_id :: int
  address_id :: int

record UpdateAddressRequest =
  id :: int
  contact_id :: int
  street :: string
  city :: string
  province :: string
  country :: string
  postal_code :: string

record RemoveAddressRequest =
  contact_id :: int
  address_id :: int

record AddressResponse =
  id :: int
  street :: string
  city :: string
  province :: string
  country :: string
  postal_code :: string

text \<open>
  What an operation can throw. \<open>HttpException msg status\<close> is the exception of the
  source (\<^verbatim>\<open>new HttpException('Address is not found', 404)\<close>); the not-found error of the
  specification is the one with status 404. \<open>StoreError\<close> stands for a failure raised by
  the persistence client itself, which the service does not catch.
\<close>

datatype error = ValidationError | HttpException string nat | StoreError

abbreviation NotFoundError :: "string \<Rightarrow> error" where
  "NotFoundError msg \<equiv> HttpException msg 404"

text \<open>
  The backing store: the contact table, the address table in insertion order, and the
  counter from which the store assigns the identifier of the next address row.
\<close>

record db =
  contacts :: "Contact list"
  addresses :: "Address list"
  next_id :: int

text \<open>
  The calls an operation of the service makes directly, in the order in which it makes
  them: the trace of an operation is the list of the callees of its statements.
\<close>

datatype call =
    Validate
  | CheckContactMustExists
  | CheckAddressMustExists
  | PrismaCreate
  | PrismaUpdate
  | PrismaDelete
  | PrismaFindMany
  | ToAddressResponse

section \<open>Sequencing\<close>

text \<open>
  A method of the service is a function of the store: it returns its result or the
  exception thrown, the store it leaves behind, and the calls it made. A thrown
  exception ends the method (\<open>and_then\<close> skips what follows); the store reached when
  the exception is thrown is part of the outcome, so that a mutation made before a failure
  would be visible.
\<close>

type_synonym 'a service = "db \<Rightarrow> (error + 'a) \<times> db \<times> call list"

abbreviation result_of :: "(error + 'a) \<times> db \<times> call list \<Rightarrow> error + 'a" where
  "result_of out \<equiv> fst out"

abbreviation store_of :: "(error + 'a) \<times> db \<times> call list \<Rightarrow> db" where
  "store_of out \<equiv> fst (snd out)"

abbreviation calls_of :: "(error + 'a) \<times> db \<times> call list \<Rightarrow> call list" where
  "calls_of out \<equiv> snd (snd out)"

definition returns :: "'a \<Rightarrow> 'a service" where
  "returns x s = (Inr x, s, [])"

definition throws :: "error \<Rightarrow> 'a service" where
  "throws e s = (Inl e, s, [])"

definition and_then :: "'a service \<Rightarrow> ('a \<Rightarrow> 'b service) \<Rightarrow> 'b service" where
  "and_then m f s =
     (case m s of
        (Inl e, s', t) \<Rightarrow> (Inl e, s', t)
      | (Inr x, s', t) \<Rightarrow> (case f x s' of (r, s'', t') \<Rightarrow> (r, s'', t @ t')))"

definition called :: "call \<Rightarrow> 'a service \<Rightarrow> 'a service" where
  "called c m s = (case m s of (r, s', t) \<Rightarrow> (r, s', c # t))"

section \<open>Collaborators of the service\<close>

subsection \<open>Request validation\<close>

text \<open>
  Modelled from the spec: the validation service (\<^verbatim>\<open>common/validation.service.ts\<close>) and
  the schemas \<^verbatim>\<open>AddressValidation.CREATE\<close>, \<^verbatim>\<open>GET\<close>, \<^verbatim>\<open>UPDATE\<close>, \<^verbatim>\<open>REMOVE\<close>
  (\<^verbatim>\<open>address/address.validation.ts\<close>) are missing from the sources. The specification gives
  the contract \<^verbatim>\<open>validate(schema, input) -> normalized input | fails with ValidationError\<close>,
  asks that on create and update "all five textual fields must be non-empty strings up to a
  bounded length (\<le>255 typical)", and that get "validates shape". A request of the model
  has the shape of its class by typing, so the schemas of get and remove accept every
  request; a valid request is returned as it is. Validation is a function of the request
  alone and returns at once: the source calls it with \<^verbatim>\<open>await\<close> in create and get and
  without in update and remove, which is the same for a value that is not a promise.
\<close>

definition max_text_length :: nat where
  "max_text_length = 255"

definition valid_text :: "string \<Rightarrow> bool" where
  "valid_text t = (t \<noteq> [] \<and> length t \<le> max_text_length)"

definition validate_CREATE :: "CreateAddressRequest \<Rightarrow> CreateAddressRequest service" where
  "validate_CREATE request =
     (if valid_text (CreateAddressRequest.street request)
        \<and> valid_text (CreateAddressRequest.city request)
        \<and> valid_text (CreateAddressRequest.province request)
        \<and> valid_text (CreateAddressRequest.country request)
        \<and> valid_text (CreateAddressRequest.postal_code request)
      then returns request
      else throws ValidationError)"

definition validate_GET :: "GetAddressRequest \<Rightarrow> GetAddressRequest service" where
  "validate_GET request = returns request"

definition validate_UPDATE :: "UpdateAddressRequest \<Rightarrow> UpdateAddressRequest service" where
  "validate_UPDATE request =
     (if valid_text (UpdateAddressRequest.street request)
        \<and> valid_text (UpdateAddressRequest.city request)
        \<and> valid_text (UpdateAddressRequest.province request)
        \<and> valid_text (UpdateAddressRequest.country request)
        \<and> valid_text (UpdateAddressRequest.postal_code request)
      then returns request
      else throws ValidationError)"

definition validate_REMOVE :: "RemoveAddressRequest \<Rightarrow> RemoveAddressRequest service" where
  "validate_REMOVE request = returns request"

subsection \<open>Contact guard\<close>

text \<open>
  Modelled from the spec: \<^verbatim>\<open>ContactService.checkContactMustExists\<close>
  (\<^verbatim>\<open>contact/contact.service.ts\<close>) is missing from the sources. The specification gives
  \<^verbatim>\<open>checkContactMustExists(ownerUsername, contactId) -> void | fails with NotFoundError\<close>:
  it "confirms the contact exists and belongs to that owner" and fails "with a simple
  error message". It reads the contact table and changes nothing.
\<close>

definition owns_contact :: "db \<Rightarrow> string \<Rightarrow> int \<Rightarrow> bool" where
  "owns_contact s ownerUsername contactId =
     (find (\<lambda>c. Contact.username c = ownerUsername \<and> Contact.id c = contactId) (contacts s) \<noteq> None)"

definition checkContactMustExists :: "string \<Rightarrow> int \<Rightarrow> unit service" where
  "checkContactMustExists ownerUsername contactId s =
     (if owns_contact s ownerUsername contactId
      then returns () s
      else throws (NotFoundError ''Contact is not found'') s)"

subsection \<open>Persistence client\<close>

text \<open>
  The address relation of the persistence client, "keyed by id, filterable by id and
  contact_id". A statement with a \<^verbatim>\<open>where\<close> clause acts on the rows that satisfy it;
  \<^verbatim>\<open>update\<close> and \<^verbatim>\<open>delete\<close> return the row they acted on and fail when there is none;
  \<^verbatim>\<open>create\<close> gives the new row the next identifier of the store; \<^verbatim>\<open>update\<close> sets the
  columns named in \<^verbatim>\<open>data\<close>, which for an update request are all seven.
\<close>

definition address_findFirst :: "int \<Rightarrow> int \<Rightarrow> Address option service" where
  "address_findFirst i c s =
     returns (find (\<lambda>a. Address.id a = i \<and> Address.contact_id a = c) (addresses s)) s"

definition address_findMany :: "int \<Rightarrow> Address list service" where
  "address_findMany c s =
     returns (filter (\<lambda>a. Address.contact_id a = c) (addresses s)) s"

definition new_row :: "int \<Rightarrow> CreateAddressRequest \<Rightarrow> Address" where
  "new_row i d =
     \<lparr> Address.id = i,
       Address.contact_id = CreateAddressRequest.contact_id d,
       Address.street = CreateAddressRequest.street d,
       Address.city = CreateAddressRequest.city d,
       Address.province = CreateAddressRequest.province d,
       Address.country = CreateAddressRequest.country d,
       Address.postal_code = CreateAddressRequest.postal_code d \<rparr>"

definition address_create :: "CreateAddressRequest \<Rightarrow> Address service" where
  "address_create d s =
     (let a = new_row (next_id s) d
      in returns a (s\<lparr> addresses := addresses s @ [a], next_id := next_id s + 1 \<rparr>))"

definition set_columns :: "UpdateAddressRequest \<Rightarrow> Address \<Rightarrow> Address" where
  "set_columns d a =
     a\<lparr> Address.id := UpdateAddressRequest.id d,
        Address.contact_id := UpdateAddressRequest.contact_id d,
        Address.street := UpdateAddressRequest.street d,
        Address.city := UpdateAddressRequest.city d,
        Address.province := UpdateAddressRequest.province d,
        Address.country := UpdateAddressRequest.country d,
        Address.postal_code := UpdateAddressRequest.postal_code d \<rparr>"

definition address_update :: "int \<Rightarrow> UpdateAddressRequest \<Rightarrow> Address service" where
  "address_update i d s =
     (case find (\<lambda>a. Address.id a = i) (addresses s) of
        None \<Rightarrow> throws StoreError s
      | Some a \<Rightarrow>
          returns (set_columns d a)
            (s\<lparr> addresses :=
                 map (\<lambda>r. if Address.id r = i then set_columns d r else r) (addresses s) \<rparr>))"

definition address_delete :: "int \<Rightarrow> Address service" where
  "address_delete i s =
     (case find (\<lambda>a. Address.id a = i) (addresses s) of
        None \<Rightarrow> throws StoreError s
      | Some a \<Rightarrow>
          returns a (s\<lparr> addresses := filter (\<lambda>r. Address.id r \<noteq> i) (addresses s) \<rparr>))"

text \<open>
  The identifier is the key of the address table: no two rows share one, and the counter
  is beyond every identifier in use.
\<close>

definition unique_ids :: "db \<Rightarrow> bool" where
  "unique_ids s =
     (distinct (map Address.id (addresses s))
      \<and> (\<forall>a \<in> set (addresses s). Address.id a < next_id s))"

section \<open>The address service\<close>

text \<open>
  The methods of \<^verbatim>\<open>AddressService\<close>, statement by statement. The debug logging at the
  head of \<^verbatim>\<open>update\<close> has no effect on the store or the result and is left out.
\<close>

definition toAddressResponse :: "Address \<Rightarrow> AddressResponse" where
  "toAddressResponse address =
     \<lparr> AddressResponse.id = Address.id address,
       AddressResponse.street = Address.street address,
       AddressResponse.city = Address.city address,
       AddressResponse.province = Address.province address,
       AddressResponse.country = Address.country address,
       AddressResponse.postal_code = Address.postal_code address \<rparr>"

definition checkAddressMustExists :: "int \<Rightarrow> int \<Rightarrow> Address service" where
  "checkAddressMustExists addressId contactId =
     and_then (address_findFirst addressId contactId) (\<lambda>address.
       case address of
         None \<Rightarrow> throws (NotFoundError ''Address is not found'')
       | Some a \<Rightarrow> returns a)"

definition create :: "User \<Rightarrow> CreateAddressRequest \<Rightarrow> AddressResponse service" where
  "create user request =
     and_then (called Validate (validate_CREATE request)) (\<lambda>createRequest.
     and_then (called CheckContactMustExists
                 (checkContactMustExists (User.username user)
                    (CreateAddressRequest.contact_id createRequest))) (\<lambda>_.
     and_then (called PrismaCreate (address_create createRequest)) (\<lambda>address.
     called ToAddressResponse (returns (toAddressResponse address)))))"

definition get :: "User \<Rightarrow> GetAddressRequest \<Rightarrow> AddressResponse service" where
  "get user request =
     and_then (called Validate (validate_GET request)) (\<lambda>getRequest.
     and_then (called CheckContactMustExists
                 (checkContactMustExists (User.username user)
                    (GetAddressRequest.contact_id getRequest))) (\<lambda>_.
     and_then (called CheckAddressMustExists
                 (checkAddressMustExists (GetAddressRequest.address_id getRequest)
                    (GetAddressRequest.contact_id getRequest))) (\<lambda>address.
     called ToAddressResponse (returns (toAddressResponse address)))))"

definition update :: "User \<Rightarrow> UpdateAddressRequest \<Rightarrow> AddressResponse service" where
  "update user request =
     and_then (called Validate (validate_UPDATE request)) (\<lambda>updateRequest.
     and_then (called CheckContactMustExists
                 (checkContactMustExists (User.username user)
                    (UpdateAddressRequest.contact_id updateRequest))) (\<lambda>_.
     and_then (called CheckAddressMustExists
                 (checkAddressMustExists (UpdateAddressRequest.id updateRequest)
                    (UpdateAddressRequest.contact_id updateRequest))) (\<lambda>address.
     and_then (called PrismaUpdate
                 (address_update (Address.id address) updateRequest)) (\<lambda>address.
     called ToAddressResponse (returns (toAddressResponse address))))))"

definition remove :: "User \<Rightarrow> RemoveAddressRequest \<Rightarrow> AddressResponse service" where
  "remove user request =
     and_then (called Validate (validate_REMOVE request)) (\<lambda>removeRequest.
     and_then (called CheckContactMustExists
                 (checkContactMustExists (User.username user)
                    (RemoveAddressRequest.contact_id removeRequest))) (\<lambda>_.
     and_then (called CheckAddressMustExists
                 (checkAddressMustExists (RemoveAddressRequest.address_id request)
                    (RemoveAddressRequest.contact_id request))) (\<lambda>_.
     and_then (called PrismaDelete
                 (address_delete (RemoveAddressRequest.address_id removeRequest))) (\<lambda>address.
     called ToAddressResponse (returns (toAddressResponse address))))))"

definition map_called :: "call \<Rightarrow> ('a \<Rightarrow> 'b) \<Rightarrow> 'a list \<Rightarrow> 'b list service" where
  "map_called c f xs s = (Inr (map f xs), s, map (\<lambda>_. c) xs)"

definition list :: "User \<Rightarrow> int \<Rightarrow> AddressResponse list service" where
  "list user contactId =
     and_then (called CheckContactMustExists
                 (checkContactMustExists (User.username user) contactId)) (\<lambda>_.
     and_then (called PrismaFindMany (address_findMany contactId)) (\<lambda>found.
     map_called ToAddressResponse toAddressResponse found))"

section \<open>Stating the properties\<close>

text \<open>
  An operation is rejected when it throws the validation error or an exception with
  status 404; it succeeds when it returns a response.
\<close>

definition rejected :: "error + 'a \<Rightarrow> bool" where
  "rejected r =
     (case r of
        Inl ValidationError \<Rightarrow> True
      | Inl (HttpException msg status) \<Rightarrow> status = 404
      | Inl StoreError \<Rightarrow> False
      | Inr _ \<Rightarrow> False)"

definition succeeded :: "error + 'a \<Rightarrow> bool" where
  "succeeded r = (case r of Inl _ \<Rightarrow> False | Inr _ \<Rightarrow> True)"


section \<open>Example data\<close>

text \<open>
  The values of the end-to-end tests (\<^verbatim>\<open>test/address.spec.ts\<close>): the user \<^verbatim>\<open>test\<close>, an
  address \<^verbatim>\<open>street test\<close> ... \<^verbatim>\<open>1111\<close> under the user's contact, and the update
  payload \<^verbatim>\<open>street updated\<close> ... \<^verbatim>\<open>2222\<close>. The store holds a second contact of the
  same user with an address of its own.
\<close>

definition create_request ::
  "int \<Rightarrow> string \<Rightarrow> string \<Rightarrow> string \<Rightarrow> string \<Rightarrow> string \<Rightarrow> CreateAddressRequest" where
  "create_request k st ci pr co pc =
     \<lparr> CreateAddressRequest.contact_id = k,
       CreateAddressRequest.street = st,
       CreateAddressRequest.city = ci,
       CreateAddressRequest.province = pr,
       CreateAddressRequest.country = co,
       CreateAddressRequest.postal_code = pc \<rparr>"

definition update_request ::
  "int \<Rightarrow> int \<Rightarrow> string \<Rightarrow> string \<Rightarrow> string \<Rightarrow> string \<Rightarrow> string \<Rightarrow> UpdateAddressRequest" where
  "update_request i k st ci pr co pc =
     \<lparr> UpdateAddressRequest.id = i,
       UpdateAddressRequest.contact_id = k,
       UpdateAddressRequest.street = st,
       UpdateAddressRequest.city = ci,
       UpdateAddressRequest.province = pr,
       UpdateAddressRequest.country = co,
       UpdateAddressRequest.postal_code = pc \<rparr>"

definition get_request :: "int \<Rightarrow> int \<Rightarrow> GetAddressRequest" where
  "get_request k i = \<lparr> GetAddressRequest.contact_id = k, GetAddressRequest.address_id = i \<rparr>"

definition remove_request :: "int \<Rightarrow> int \<Rightarrow> RemoveAddressRequest" where
  "remove_request k i =
     \<lparr> RemoveAddressRequest.contact_id = k, RemoveAddressRequest.address_id = i \<rparr>"

definition address_row ::
  "int \<Rightarrow> int \<Rightarrow> string \<Rightarrow> string \<Rightarrow> string \<Rightarrow> string \<Rightarrow> string \<Rightarrow> Address" where
  "address_row i k st ci pr co pc =
     \<lparr> Address.id = i,
       Address.contact_id = k,
       Address.street = st,
       Address.city = ci,
       Address.province = pr,
       Address.country = co,
       Address.postal_code = pc \<rparr>"

definition address_response ::
  "int \<Rightarrow> string \<Rightarrow> string \<Rightarrow> string \<Rightarrow> string \<Rightarrow> string \<Rightarrow> AddressResponse" where
  "address_response i st ci pr co pc =
     \<lparr> AddressResponse.id = i,
       AddressResponse.street = st,
       AddressResponse.city = ci,
       AddressResponse.province = pr,
       AddressResponse.country = co,
       AddressResponse.postal_code = pc \<rparr>"

definition test_user :: User where
  "test_user = \<lparr> User.username = ''test'' \<rparr>"

definition test_address :: Address where
  "test_address =
     address_row 1 1 ''street test'' ''city test'' ''province test'' ''country test'' ''1111''"

definition other_address :: Address where
  "other_address =
     address_row 2 2 ''street other'' ''city other'' ''province other'' ''country other'' ''9999''"

definition test_store :: db where
  "test_store =
     \<lparr> contacts = [\<lparr> Contact.id = 1, Contact.username = ''test'' \<rparr>,
                   \<lparr> Contact.id = 2, Contact.username = ''test'' \<rparr>],
       addresses = [test_address, other_address],
       next_id = 3 \<rparr>"

definition test_create :: "int \<Rightarrow> CreateAddressRequest" where
  "test_create k =
     create_request k ''street test'' ''city test'' ''province test'' ''country test'' ''1111''"

definition test_update :: "int \<Rightarrow> int \<Rightarrow> UpdateAddressRequest" where
  "test_update i k =
     update_request i k ''street updated'' ''city updated'' ''province updated''
       ''country updated'' ''2222''"

section \<open>What each operation computes\<close>

text \<open>
  Each method, unfolded into the decision it makes: which check fails first, what is
  returned, which store is left, which calls were made.
\<close>

lemmas service_defs = returns_def throws_def and_then_def called_def

lemma find_weaken:
  "find P xs = Some a \<Longrightarrow> (\<And>x. P x \<Longrightarrow> Q x) \<Longrightarrow> \<exists>b. find Q xs = Some b \<and> b \<in> set xs \<and> Q b"
  by (induction xs) (auto split: if_splits)

lemma find_Some_mem: "find P xs = Some a \<Longrightarrow> a \<in> set xs \<and> P a"
  by (induction xs) (auto split: if_splits)

lemma find_filter_None: "(\<And>x. P x \<Longrightarrow> \<not> Q x) \<Longrightarrow> find P (filter Q xs) = None"
  by (induction xs) auto

lemma set_columns_eq:
  "set_columns d a =
     \<lparr> Address.id = UpdateAddressRequest.id d,
       Address.contact_id = UpdateAddressRequest.contact_id d,
       Address.street = UpdateAddressRequest.street d,
       Address.city = UpdateAddressRequest.city d,
       Address.province = UpdateAddressRequest.province d,
       Address.country = UpdateAddressRequest.country d,
       Address.postal_code = UpdateAddressRequest.postal_code d \<rparr>"
  by (simp add: set_columns_def)

lemma create_unfold:
  "create user r s =
     (if valid_text (CreateAddressRequest.street r) \<and> valid_text (CreateAddressRequest.city r)
         \<and> valid_text (CreateAddressRequest.province r) \<and> valid_text (CreateAddressRequest.country r)
         \<and> valid_text (CreateAddressRequest.postal_code r)
      then if owns_contact s (User.username user) (CreateAddressRequest.contact_id r)
           then (Inr (toAddressResponse (new_row (next_id s) r)),
                 s\<lparr> addresses := addresses s @ [new_row (next_id s) r], next_id := next_id s + 1 \<rparr>,
                 [Validate, CheckContactMustExists, PrismaCreate, ToAddressResponse])
           else (Inl (NotFoundError ''Contact is not found''), s, [Validate, CheckContactMustExists])
      else (Inl ValidationError, s, [Validate]))"
  by (simp add: create_def service_defs validate_CREATE_def checkContactMustExists_def
       address_create_def Let_def)

lemma get_unfold:
  "get user g s =
     (if owns_contact s (User.username user) (GetAddressRequest.contact_id g)
      then (case find (\<lambda>a. Address.id a = GetAddressRequest.address_id g
                        \<and> Address.contact_id a = GetAddressRequest.contact_id g) (addresses s) of
              None \<Rightarrow> (Inl (NotFoundError ''Address is not found''), s,
                        [Validate, CheckContactMustExists, CheckAddressMustExists])
            | Some a \<Rightarrow> (Inr (toAddressResponse a), s,
                        [Validate, CheckContactMustExists, CheckAddressMustExists, ToAddressResponse]))
      else (Inl (NotFoundError ''Contact is not found''), s, [Validate, CheckContactMustExists]))"
  by (simp add: get_def service_defs validate_GET_def checkContactMustExists_def
       checkAddressMustExists_def address_findFirst_def split: option.splits)

lemma update_unfold:
  "update user r s =
     (if valid_text (UpdateAddressRequest.street r) \<and> valid_text (UpdateAddressRequest.city r)
         \<and> valid_text (UpdateAddressRequest.province r) \<and> valid_text (UpdateAddressRequest.country r)
         \<and> valid_text (UpdateAddressRequest.postal_code r)
      then if owns_contact s (User.username user) (UpdateAddressRequest.contact_id r)
           then (case find (\<lambda>a. Address.id a = UpdateAddressRequest.id r
                        \<and> Address.contact_id a = UpdateAddressRequest.contact_id r) (addresses s) of
              None \<Rightarrow> (Inl (NotFoundError ''Address is not found''), s,
                        [Validate, CheckContactMustExists, CheckAddressMustExists])
            | Some a \<Rightarrow> (Inr (toAddressResponse (set_columns r a)),
                         s\<lparr> addresses := map (\<lambda>x. if Address.id x = UpdateAddressRequest.id r
                                                   then set_columns r x else x) (addresses s) \<rparr>,
                        [Validate, CheckContactMustExists, CheckAddressMustExists, PrismaUpdate,
                         ToAddressResponse]))
           else (Inl (NotFoundError ''Contact is not found''), s, [Validate, CheckContactMustExists])
      else (Inl ValidationError, s, [Validate]))"
proof (cases "find (\<lambda>a. Address.id a = UpdateAddressRequest.id r
                        \<and> Address.contact_id a = UpdateAddressRequest.contact_id r) (addresses s)")
  case None
  then show ?thesis
    by (simp add: update_def service_defs validate_UPDATE_def checkContactMustExists_def
       checkAddressMustExists_def address_findFirst_def)
next
  case (Some a)
  from find_Some_mem [OF Some] have ida: "Address.id a = UpdateAddressRequest.id r" by simp
  from find_weaken [OF Some, of "\<lambda>a. Address.id a = UpdateAddressRequest.id r"]
  obtain b where b: "find (\<lambda>a. Address.id a = UpdateAddressRequest.id r) (addresses s) = Some b"
    by auto
  have upd: "address_update (UpdateAddressRequest.id r) r s =
      (Inr (set_columns r a),
       s\<lparr> addresses := map (\<lambda>x. if Address.id x = UpdateAddressRequest.id r
                                                   then set_columns r x else x) (addresses s) \<rparr>, [])"
    by (simp add: address_update_def b returns_def set_columns_eq)
  have chk: "checkAddressMustExists (UpdateAddressRequest.id r) (UpdateAddressRequest.contact_id r) s
      = (Inr a, s, [])"
    by (simp add: checkAddressMustExists_def address_findFirst_def service_defs Some)
  show ?thesis
    by (simp add: update_def service_defs validate_UPDATE_def checkContactMustExists_def
        chk Some ida upd)
qed

lemma remove_unfold:
  "remove user r s =
     (if owns_contact s (User.username user) (RemoveAddressRequest.contact_id r)
      then (case find (\<lambda>a. Address.id a = RemoveAddressRequest.address_id r
                        \<and> Address.contact_id a = RemoveAddressRequest.contact_id r) (addresses s) of
              None \<Rightarrow> (Inl (NotFoundError ''Address is not found''), s,
                        [Validate, CheckContactMustExists, CheckAddressMustExists])
            | Some a \<Rightarrow>
               (case find (\<lambda>a. Address.id a = RemoveAddressRequest.address_id r) (addresses s) of
                  None \<Rightarrow> (Inl StoreError, s,
                        [Validate, CheckContactMustExists, CheckAddressMustExists, PrismaDelete])
                | Some b \<Rightarrow> (Inr (toAddressResponse b),
                         s\<lparr> addresses := filter (\<lambda>x. Address.id x \<noteq> RemoveAddressRequest.address_id r)
                                           (addresses s) \<rparr>,
                        [Validate, CheckContactMustExists, CheckAddressMustExists, PrismaDelete,
                         ToAddressResponse])))
      else (Inl (NotFoundError ''Contact is not found''), s, [Validate, CheckContactMustExists]))"
  by (simp add: remove_def service_defs validate_REMOVE_def checkContactMustExists_def
       checkAddressMustExists_def address_findFirst_def address_delete_def
       split: option.splits)

lemma list_unfold:
  "list user c s =
     (if owns_contact s (User.username user) c
      then (Inr (map toAddressResponse (filter (\<lambda>a. Address.contact_id a = c) (addresses s))), s,
            [CheckContactMustExists, PrismaFindMany]
              @ map (\<lambda>_. ToAddressResponse) (filter (\<lambda>a. Address.contact_id a = c) (addresses s)))
      else (Inl (NotFoundError ''Contact is not found''), s, [CheckContactMustExists]))"
  by (simp add: list_def service_defs checkContactMustExists_def address_findMany_def
       map_called_def)

lemma owns_contact_addresses [simp]:
  "owns_contact (s\<lparr>addresses := xs\<rparr>) u c = owns_contact s u c"
  by (simp add: owns_contact_def)

lemma owns_contact_next_id [simp]:
  "owns_contact (s\<lparr>next_id := n\<rparr>) u c = owns_contact s u c"
  by (simp add: owns_contact_def)

lemma find_None_set: "(find P xs = None) = (\<forall>x \<in> set xs. \<not> P x)"
  by (auto simp add: find_None_iff)


lemma filter_unique_key:
  "distinct (map f xs) \<Longrightarrow> a \<in> set xs \<Longrightarrow> filter (\<lambda>x. f x \<noteq> f a) xs = remove1 a xs"
proof (induction xs)
  case Nil
  then show ?case by simp
next
  case (Cons x xs)
  show ?case
  proof (cases "x = a")
    case True
    from Cons.prems True have "f a \<notin> f ` set xs" by simp
    then have "\<forall>y \<in> set xs. f y \<noteq> f a" by (metis imageI)
    then have "filter (\<lambda>x. f x \<noteq> f a) xs = xs" by (simp add: filter_id_conv)
    with True show ?thesis by simp
  next
    case False
    with Cons.prems have "a \<in> set xs" "f x \<noteq> f a" by auto
    with Cons.IH Cons.prems False show ?thesis by simp
  qed
qed

lemmas example_defs =
  create_request_def update_request_def get_request_def remove_request_def address_row_def
  address_response_def test_user_def test_address_def other_address_def test_store_def
  test_create_def test_update_def

lemmas model_defs =
  owns_contact_def valid_text_def max_text_length_def new_row_def set_columns_eq
  toAddressResponse_def rejected_def succeeded_def

lemma test_store_unique: "unique_ids test_store"
  by (simp add: unique_ids_def example_defs)

subsection \<open>The key of the address table is kept\<close>

text \<open>
  Unique identifiers below the counter hold of an empty table and are kept by the three
  methods that write; get and list leave the store as it is.
\<close>

lemma unique_ids_empty: "unique_ids \<lparr>contacts = cs, addresses = [], next_id = n\<rparr>"
  by (simp add: unique_ids_def)

lemma unique_ids_create: "unique_ids s \<Longrightarrow> unique_ids (store_of (create user c s))"
  by (auto simp add: create_unfold unique_ids_def new_row_def)

lemma unique_ids_update: "unique_ids s \<Longrightarrow> unique_ids (store_of (update user u s))"
proof -
  assume inv: "unique_ids s"
  let ?f = "\<lambda>x. if Address.id x = UpdateAddressRequest.id u then set_columns u x else x"
  have ids: "map Address.id (map ?f (addresses s)) = map Address.id (addresses s)"
    by (simp add: set_columns_eq)
  have bound: "\<forall>a \<in> set (map ?f (addresses s)). Address.id a < next_id s"
  proof
    fix a assume "a \<in> set (map ?f (addresses s))"
    then have "Address.id a \<in> Address.id ` set (map ?f (addresses s))" by (rule imageI)
    then have "Address.id a \<in> set (map Address.id (map ?f (addresses s)))"
      by (simp only: set_map)
    with ids have "Address.id a \<in> set (map Address.id (addresses s))" by (simp only:)
    with inv show "Address.id a < next_id s" by (auto simp add: unique_ids_def)
  qed
  have "unique_ids (s\<lparr>addresses := map ?f (addresses s)\<rparr>)"
    using inv ids bound by (simp add: unique_ids_def del: map_map set_map)
  with inv show ?thesis
    by (simp add: update_unfold split: option.splits)
qed

lemma unique_ids_remove: "unique_ids s \<Longrightarrow> unique_ids (store_of (remove user r s))"
  by (auto simp add: remove_unfold unique_ids_def distinct_map_filter split: option.splits)

section \<open>Properties of the service\<close>

subsection \<open>An address outside the contact is not found\<close>

text \<open>
  C1. The contact named in the request is owned by the caller, and no address row has both
  the identifier and the contact of the request (a row with that identifier may exist under
  another contact). Then get and remove fail with the not-found error of the address check,
  and so does an update whose payload passes validation; the store is left as it was.
\<close>

theorem address_outside_contact_is_not_found:
  assumes owned: "owns_contact s (User.username user) c"
    and absent: "\<forall>a \<in> set (addresses s). \<not> (Address.id a = i \<and> Address.contact_id a = c)"
  shows "(GetAddressRequest.contact_id g = c \<and> GetAddressRequest.address_id g = i
            \<longrightarrow> result_of (get user g s) = Inl (NotFoundError ''Address is not found'')
                \<and> store_of (get user g s) = s)
       \<and> (RemoveAddressRequest.contact_id r = c \<and> RemoveAddressRequest.address_id r = i
            \<longrightarrow> result_of (remove user r s) = Inl (NotFoundError ''Address is not found'')
                \<and> store_of (remove user r s) = s)
       \<and> (UpdateAddressRequest.contact_id u = c \<and> UpdateAddressRequest.id u = i
            \<and> result_of (validate_UPDATE u s) = Inr u
            \<longrightarrow> result_of (update user u s) = Inl (NotFoundError ''Address is not found'')
                \<and> store_of (update user u s) = s)"
proof -
  from absent have none:
    "find (\<lambda>a. Address.id a = i \<and> Address.contact_id a = c) (addresses s) = None"
    by (simp add: find_None_set)
  have g: "GetAddressRequest.contact_id g = c \<and> GetAddressRequest.address_id g = i
            \<longrightarrow> result_of (get user g s) = Inl (NotFoundError ''Address is not found'')
                \<and> store_of (get user g s) = s"
    using owned none by (simp add: get_unfold)
  have r: "RemoveAddressRequest.contact_id r = c \<and> RemoveAddressRequest.address_id r = i
            \<longrightarrow> result_of (remove user r s) = Inl (NotFoundError ''Address is not found'')
                \<and> store_of (remove user r s) = s"
    using owned none by (simp add: remove_unfold)
  have u: "UpdateAddressRequest.contact_id u = c \<and> UpdateAddressRequest.id u = i
            \<and> result_of (validate_UPDATE u s) = Inr u
            \<longrightarrow> result_of (update user u s) = Inl (NotFoundError ''Address is not found'')
                \<and> store_of (update user u s) = s"
    using owned none
    by (simp add: update_unfold validate_UPDATE_def returns_def throws_def split: if_splits)
  from g r u show ?thesis by blast
qed

text \<open>
  On the example store the address 1 belongs to contact 1: it is found there, and not found
  under contact 2 of the same user.
\<close>

theorem address_outside_contact_is_not_found_witness:
  "result_of (get test_user (get_request 1 1) test_store) = Inr (toAddressResponse test_address)
   \<and> result_of (get test_user (get_request 2 1) test_store)
        = Inl (NotFoundError ''Address is not found'')
   \<and> result_of (remove test_user (remove_request 2 1) test_store)
        = Inl (NotFoundError ''Address is not found'')
   \<and> store_of (remove test_user (remove_request 2 1) test_store) = test_store
   \<and> result_of (update test_user (test_update 1 2) test_store)
        = Inl (NotFoundError ''Address is not found'')
   \<and> store_of (update test_user (test_update 1 2) test_store) = test_store"
proof -
  have owned: "owns_contact test_store (User.username test_user) 2"
    by (simp add: example_defs model_defs)
  have absent: "\<forall>a \<in> set (addresses test_store). \<not> (Address.id a = 1 \<and> Address.contact_id a = 2)"
    by (simp add: example_defs)
  have valid: "result_of (validate_UPDATE (test_update 1 2) test_store) = Inr (test_update 1 2)"
    by (simp add: validate_UPDATE_def returns_def example_defs model_defs)
  have there: "result_of (get test_user (get_request 1 1) test_store)
                 = Inr (toAddressResponse test_address)"
    by (simp add: get_unfold example_defs model_defs)
  have g: "GetAddressRequest.contact_id (get_request 2 1) = 2
           \<and> GetAddressRequest.address_id (get_request 2 1) = 1"
    by (simp add: get_request_def)
  have r: "RemoveAddressRequest.contact_id (remove_request 2 1) = 2
           \<and> RemoveAddressRequest.address_id (remove_request 2 1) = 1"
    by (simp add: remove_request_def)
  have u: "UpdateAddressRequest.contact_id (test_update 1 2) = 2
           \<and> UpdateAddressRequest.id (test_update 1 2) = 1"
    by (simp add: test_update_def update_request_def)
  from address_outside_contact_is_not_found
         [OF owned absent, of "get_request 2 1" "remove_request 2 1" "test_update 1 2"]
       g r u valid there
  show ?thesis by blast
qed

text \<open>
  C1 without the condition on the payload: the caller owns contact 1, no address 9 exists,
  and an update with an empty street fails with the validation error, since validation is the
  first statement of \<^verbatim>\<open>update\<close>.
\<close>

theorem validation_comes_before_the_address_check:
  "owns_contact test_store (User.username test_user) 1
   \<and> result_of (address_findFirst 9 1 test_store) = Inr None
   \<and> result_of (update test_user (update_request 9 1 [] ''city updated'' ''province updated''
         ''country updated'' ''2222'') test_store) = Inl ValidationError
   \<and> result_of (update test_user (update_request 9 1 [] ''city updated'' ''province updated''
         ''country updated'' ''2222'') test_store) \<noteq> Inl (NotFoundError ''Address is not found'')"
  by (simp add: update_unfold address_findFirst_def returns_def example_defs model_defs)

subsection \<open>Empty fields\<close>

text \<open>
  C2. A create or an update request in which one of street, city, province, country and
  postal code is the empty string fails with the validation error, and the store is left as
  it was.
\<close>

theorem empty_field_is_rejected:
  "(CreateAddressRequest.street c = [] \<or> CreateAddressRequest.city c = []
      \<or> CreateAddressRequest.province c = [] \<or> CreateAddressRequest.country c = []
      \<or> CreateAddressRequest.postal_code c = []
     \<longrightarrow> result_of (create user c s) = Inl ValidationError \<and> store_of (create user c s) = s)
   \<and> (UpdateAddressRequest.street u = [] \<or> UpdateAddressRequest.city u = []
      \<or> UpdateAddressRequest.province u = [] \<or> UpdateAddressRequest.country u = []
      \<or> UpdateAddressRequest.postal_code u = []
     \<longrightarrow> result_of (update user u s) = Inl ValidationError \<and> store_of (update user u s) = s)"
proof -
  have e: "\<not> valid_text []" by (simp add: valid_text_def)
  have c: "result_of (create user c s) = Inl ValidationError \<and> store_of (create user c s) = s"
    if "CreateAddressRequest.street c = [] \<or> CreateAddressRequest.city c = []
      \<or> CreateAddressRequest.province c = [] \<or> CreateAddressRequest.country c = []
      \<or> CreateAddressRequest.postal_code c = []"
  proof -
    from that e have "\<not> (valid_text (CreateAddressRequest.street c)
         \<and> valid_text (CreateAddressRequest.city c)
         \<and> valid_text (CreateAddressRequest.province c)
         \<and> valid_text (CreateAddressRequest.country c)
         \<and> valid_text (CreateAddressRequest.postal_code c))"
      by auto
    then show ?thesis by (simp only: create_unfold if_False fst_conv snd_conv simp_thms)
  qed
  have u: "result_of (update user u s) = Inl ValidationError \<and> store_of (update user u s) = s"
    if "UpdateAddressRequest.street u = [] \<or> UpdateAddressRequest.city u = []
      \<or> UpdateAddressRequest.province u = [] \<or> UpdateAddressRequest.country u = []
      \<or> UpdateAddressRequest.postal_code u = []"
  proof -
    from that e have "\<not> (valid_text (UpdateAddressRequest.street u)
         \<and> valid_text (UpdateAddressRequest.city u)
         \<and> valid_text (UpdateAddressRequest.province u)
         \<and> valid_text (UpdateAddressRequest.country u)
         \<and> valid_text (UpdateAddressRequest.postal_code u))"
      by auto
    then show ?thesis by (simp only: update_unfold if_False fst_conv snd_conv simp_thms)
  qed
  from c u show ?thesis by blast
qed

text \<open>
  A create request with an empty street and an update request with an empty postal code.
\<close>

theorem empty_field_is_rejected_witness:
  "result_of (create test_user (create_request 1 [] ''city test'' ''province test''
       ''country test'' ''1111'') test_store) = Inl ValidationError
   \<and> store_of (create test_user (create_request 1 [] ''city test'' ''province test''
       ''country test'' ''1111'') test_store) = test_store
   \<and> result_of (update test_user (update_request 1 1 ''street updated'' ''city updated''
       ''province updated'' ''country updated'' []) test_store) = Inl ValidationError
   \<and> store_of (update test_user (update_request 1 1 ''street updated'' ''city updated''
       ''province updated'' ''country updated'' []) test_store) = test_store"
proof -
  have c: "CreateAddressRequest.street (create_request 1 [] ''city test'' ''province test''
       ''country test'' ''1111'') = []"
    by (simp add: create_request_def)
  have u: "UpdateAddressRequest.postal_code (update_request 1 1 ''street updated''
       ''city updated'' ''province updated'' ''country updated'' []) = []"
    by (simp add: update_request_def)
  from empty_field_is_rejected
         [of "create_request 1 [] ''city test'' ''province test'' ''country test'' ''1111''"
             test_user test_store
             "update_request 1 1 ''street updated'' ''city updated'' ''province updated''
                ''country updated'' []"]
       c u
  show ?thesis by blast
qed

subsection \<open>A rejected operation changes nothing\<close>

lemma create_rejected: "rejected (result_of (create user c s)) \<Longrightarrow> store_of (create user c s) = s"
  by (auto simp add: create_unfold rejected_def split: if_splits)

lemma get_store: "store_of (get user g s) = s"
  by (simp add: get_unfold split: option.splits)

lemma update_rejected: "rejected (result_of (update user u s)) \<Longrightarrow> store_of (update user u s) = s"
  by (auto simp add: update_unfold rejected_def split: if_splits option.splits)

lemma remove_rejected: "rejected (result_of (remove user r s)) \<Longrightarrow> store_of (remove user r s) = s"
  by (auto simp add: remove_unfold rejected_def split: if_splits option.splits)

lemma list_store: "store_of (list user k s) = s"
  by (simp add: list_unfold)

text \<open>
  C3. Whatever the store, when create, get, update, remove or list fails with the validation
  error or a not-found error, the store after the operation is the store before it.
\<close>

theorem failure_leaves_store_unchanged:
  "(rejected (result_of (create user c s)) \<longrightarrow> store_of (create user c s) = s)
   \<and> (rejected (result_of (get user g s)) \<longrightarrow> store_of (get user g s) = s)
   \<and> (rejected (result_of (update user u s)) \<longrightarrow> store_of (update user u s) = s)
   \<and> (rejected (result_of (remove user r s)) \<longrightarrow> store_of (remove user r s) = s)
   \<and> (rejected (result_of (list user k s)) \<longrightarrow> store_of (list user k s) = s)"
  using create_rejected [of user c s] get_store [of user g s] update_rejected [of user u s]
    remove_rejected [of user r s] list_store [of user k s]
  by blast

text \<open>
  Five rejected operations on the example store: a create under a contact that does not
  exist, a get and a remove of an address of another contact, an update of an address of
  another contact, and a list of a contact that does not exist.
\<close>

theorem failure_leaves_store_unchanged_witness:
  "rejected (result_of (create test_user (test_create 3) test_store))
   \<and> store_of (create test_user (test_create 3) test_store) = test_store
   \<and> rejected (result_of (get test_user (get_request 1 2) test_store))
   \<and> store_of (get test_user (get_request 1 2) test_store) = test_store
   \<and> rejected (result_of (update test_user (test_update 2 1) test_store))
   \<and> store_of (update test_user (test_update 2 1) test_store) = test_store
   \<and> rejected (result_of (remove test_user (remove_request 1 2) test_store))
   \<and> store_of (remove test_user (remove_request 1 2) test_store) = test_store
   \<and> rejected (result_of (list test_user 3 test_store))
   \<and> store_of (list test_user 3 test_store) = test_store"
proof -
  have c: "rejected (result_of (create test_user (test_create 3) test_store))"
    by (simp add: create_unfold example_defs model_defs)
  have g: "rejected (result_of (get test_user (get_request 1 2) test_store))"
    by (simp add: get_unfold example_defs model_defs)
  have u: "rejected (result_of (update test_user (test_update 2 1) test_store))"
    by (simp add: update_unfold example_defs model_defs)
  have r: "rejected (result_of (remove test_user (remove_request 1 2) test_store))"
    by (simp add: remove_unfold example_defs model_defs)
  have l: "rejected (result_of (list test_user 3 test_store))"
    by (simp add: list_unfold example_defs model_defs)
  from failure_leaves_store_unchanged
         [of test_user "test_create 3" test_store "get_request 1 2" "test_update 2 1"
             "remove_request 1 2" 3]
       c g u r l
  show ?thesis by blast
qed

subsection \<open>Create\<close>

text \<open>
  C4. A create request that passes validation (five non-empty texts within the length
  bound) and names a contact owned by the caller appends exactly one row to the address
  table. The row carries the contact and the five texts of the request; the response carries
  the same five texts and the identifier of the new row, which no earlier row has when the
  identifiers of the table are unique.
\<close>

theorem create_adds_one_row:
  assumes valid: "result_of (validate_CREATE c s) = Inr c"
    and owned: "owns_contact s (User.username user) (CreateAddressRequest.contact_id c)"
  shows "\<exists>a. addresses (store_of (create user c s)) = addresses s @ [a]
            \<and> Address.contact_id a = CreateAddressRequest.contact_id c
            \<and> Address.street a = CreateAddressRequest.street c
            \<and> Address.city a = CreateAddressRequest.city c
            \<and> Address.province a = CreateAddressRequest.province c
            \<and> Address.country a = CreateAddressRequest.country c
            \<and> Address.postal_code a = CreateAddressRequest.postal_code c
            \<and> (unique_ids s \<longrightarrow> Address.id a \<notin> Address.id ` set (addresses s))
            \<and> result_of (create user c s) =
                Inr \<lparr> AddressResponse.id = Address.id a,
                      AddressResponse.street = CreateAddressRequest.street c,
                      AddressResponse.city = CreateAddressRequest.city c,
                      AddressResponse.province = CreateAddressRequest.province c,
                      AddressResponse.country = CreateAddressRequest.country c,
                      AddressResponse.postal_code = CreateAddressRequest.postal_code c \<rparr>"
proof -
  from valid have v: "valid_text (CreateAddressRequest.street c) \<and> valid_text (CreateAddressRequest.city c)
         \<and> valid_text (CreateAddressRequest.province c) \<and> valid_text (CreateAddressRequest.country c)
         \<and> valid_text (CreateAddressRequest.postal_code c)"
    by (simp add: validate_CREATE_def returns_def throws_def split: if_splits)
  have fresh: "unique_ids s \<longrightarrow> next_id s \<notin> Address.id ` set (addresses s)"
    by (auto simp add: unique_ids_def)
  show ?thesis
    apply (rule exI [of _ "new_row (next_id s) c"])
    using v owned fresh
    apply (simp add: create_unfold new_row_def toAddressResponse_def)
    done
qed

text \<open>
  Creating the address of the tests under contact 1 of the example store gives row 3.
\<close>

theorem create_adds_one_row_witness:
  "addresses (store_of (create test_user (test_create 1) test_store))
     = [test_address, other_address,
        address_row 3 1 ''street test'' ''city test'' ''province test'' ''country test'' ''1111'']
   \<and> result_of (create test_user (test_create 1) test_store)
     = Inr (address_response 3 ''street test'' ''city test'' ''province test''
              ''country test'' ''1111'')"
proof -
  have valid: "result_of (validate_CREATE (test_create 1) test_store) = Inr (test_create 1)"
    by (simp add: validate_CREATE_def returns_def example_defs model_defs)
  have owned: "owns_contact test_store (User.username test_user)
                 (CreateAddressRequest.contact_id (test_create 1))"
    by (simp add: example_defs model_defs)
  from create_adds_one_row [OF valid owned] test_store_unique
  obtain a where a:
    "addresses (store_of (create test_user (test_create 1) test_store))
       = addresses test_store @ [a]"
    "Address.contact_id a = CreateAddressRequest.contact_id (test_create 1)"
    "Address.street a = CreateAddressRequest.street (test_create 1)"
    "Address.city a = CreateAddressRequest.city (test_create 1)"
    "Address.province a = CreateAddressRequest.province (test_create 1)"
    "Address.country a = CreateAddressRequest.country (test_create 1)"
    "Address.postal_code a = CreateAddressRequest.postal_code (test_create 1)"
    "result_of (create test_user (test_create 1) test_store) =
       Inr \<lparr> AddressResponse.id = Address.id a,
             AddressResponse.street = CreateAddressRequest.street (test_create 1),
             AddressResponse.city = CreateAddressRequest.city (test_create 1),
             AddressResponse.province = CreateAddressRequest.province (test_create 1),
             AddressResponse.country = CreateAddressRequest.country (test_create 1),
             AddressResponse.postal_code = CreateAddressRequest.postal_code (test_create 1) \<rparr>"
    by blast
  have i: "Address.id a = 3"
    using a(8) by (simp add: create_unfold example_defs model_defs)
  have "a = address_row 3 1 ''street test'' ''city test'' ''province test'' ''country test'' ''1111''"
    using a(2-7) i by (simp add: example_defs)
  with a(1) a(8) i show ?thesis
    by (simp add: example_defs)
qed

text \<open>
  C4 without the condition on the contact: the request of the tests, valid in its five
  texts, under a contact 3 that does not exist fails with the not-found error of the contact
  guard and adds no row.
\<close>

theorem create_needs_an_owned_contact:
  "result_of (validate_CREATE (test_create 3) test_store) = Inr (test_create 3)
   \<and> result_of (create test_user (test_create 3) test_store)
        = Inl (NotFoundError ''Contact is not found'')
   \<and> addresses (store_of (create test_user (test_create 3) test_store)) = addresses test_store"
  by (simp add: create_unfold validate_CREATE_def returns_def example_defs model_defs)

subsection \<open>Remove, then get\<close>

text \<open>
  C5. After a remove of a contact and address pair has succeeded, a get by the same user
  for the same pair fails with the not-found error of the address check.
\<close>

theorem get_after_remove_is_not_found:
  assumes "succeeded (result_of (remove user r s))"
    and "GetAddressRequest.contact_id g = RemoveAddressRequest.contact_id r"
    and "GetAddressRequest.address_id g = RemoveAddressRequest.address_id r"
  shows "result_of (get user g (store_of (remove user r s)))
           = Inl (NotFoundError ''Address is not found'')"
proof -
  have none: "find (\<lambda>a. Address.id a = RemoveAddressRequest.address_id r
                        \<and> Address.contact_id a = RemoveAddressRequest.contact_id r)
                (filter (\<lambda>x. Address.id x \<noteq> RemoveAddressRequest.address_id r) (addresses s)) = None"
    by (rule find_filter_None) simp
  from assms none show ?thesis
    by (simp add: remove_unfold get_unfold succeeded_def split: if_splits option.splits)
qed

text \<open>
  Address 1 of contact 1 can be read from the example store, and no longer once removed.
\<close>

theorem get_after_remove_is_not_found_witness:
  "succeeded (result_of (remove test_user (remove_request 1 1) test_store))
   \<and> succeeded (result_of (get test_user (get_request 1 1) test_store))
   \<and> result_of (get test_user (get_request 1 1)
         (store_of (remove test_user (remove_request 1 1) test_store)))
        = Inl (NotFoundError ''Address is not found'')"
proof -
  have ok: "succeeded (result_of (remove test_user (remove_request 1 1) test_store))"
    by (simp add: remove_unfold example_defs model_defs)
  have before: "succeeded (result_of (get test_user (get_request 1 1) test_store))"
    by (simp add: get_unfold example_defs model_defs)
  have k: "GetAddressRequest.contact_id (get_request 1 1)
             = RemoveAddressRequest.contact_id (remove_request 1 1)"
    by (simp add: example_defs)
  have i: "GetAddressRequest.address_id (get_request 1 1)
             = RemoveAddressRequest.address_id (remove_request 1 1)"
    by (simp add: example_defs)
  from get_after_remove_is_not_found [OF ok k i] ok before show ?thesis by blast
qed

subsection \<open>Update\<close>

text \<open>
  C6. When an update succeeds, all five texts of the payload were present (none is empty),
  a row with the identifier and contact of the request existed, every row with that
  identifier now holds the values of the request in all its columns, every other row is as it
  was, and the response carries the identifier and the five texts of the request.
\<close>

theorem update_overwrites_all_fields:
  assumes ok: "result_of (update user u s) = Inr resp"
  shows "valid_text (UpdateAddressRequest.street u)
       \<and> valid_text (UpdateAddressRequest.city u)
       \<and> valid_text (UpdateAddressRequest.province u)
       \<and> valid_text (UpdateAddressRequest.country u)
       \<and> valid_text (UpdateAddressRequest.postal_code u)
       \<and> resp = \<lparr> AddressResponse.id = UpdateAddressRequest.id u,
                  AddressResponse.street = UpdateAddressRequest.street u,
                  AddressResponse.city = UpdateAddressRequest.city u,
                  AddressResponse.province = UpdateAddressRequest.province u,
                  AddressResponse.country = UpdateAddressRequest.country u,
                  AddressResponse.postal_code = UpdateAddressRequest.postal_code u \<rparr>
       \<and> (\<exists>a \<in> set (addresses s). Address.id a = UpdateAddressRequest.id u
              \<and> Address.contact_id a = UpdateAddressRequest.contact_id u)
       \<and> length (addresses (store_of (update user u s))) = length (addresses s)
       \<and> (\<forall>n < length (addresses s).
            addresses (store_of (update user u s)) ! n =
              (if Address.id (addresses s ! n) = UpdateAddressRequest.id u
               then \<lparr> Address.id = UpdateAddressRequest.id u,
                      Address.contact_id = UpdateAddressRequest.contact_id u,
                      Address.street = UpdateAddressRequest.street u,
                      Address.city = UpdateAddressRequest.city u,
                      Address.province = UpdateAddressRequest.province u,
                      Address.country = UpdateAddressRequest.country u,
                      Address.postal_code = UpdateAddressRequest.postal_code u \<rparr>
               else addresses s ! n))"
proof (cases "find (\<lambda>a. Address.id a = UpdateAddressRequest.id u
                        \<and> Address.contact_id a = UpdateAddressRequest.contact_id u) (addresses s)")
  case None
  with ok show ?thesis by (simp add: update_unfold split: if_splits)
next
  case (Some a)
  from find_Some_mem [OF Some] have mem: "\<exists>a \<in> set (addresses s). Address.id a = UpdateAddressRequest.id u
              \<and> Address.contact_id a = UpdateAddressRequest.contact_id u" by blast
  from ok Some mem show ?thesis
    by (simp add: update_unfold toAddressResponse_def set_columns_eq split: if_splits)
qed

text \<open>
  The update of the tests on address 1 of the example store.
\<close>

theorem update_overwrites_all_fields_witness:
  "result_of (update test_user (test_update 1 1) test_store)
     = Inr (address_response 1 ''street updated'' ''city updated'' ''province updated''
              ''country updated'' ''2222'')
   \<and> addresses (store_of (update test_user (test_update 1 1) test_store))
     = [address_row 1 1 ''street updated'' ''city updated'' ''province updated''
          ''country updated'' ''2222'',
        other_address]"
proof -
  have ok: "result_of (update test_user (test_update 1 1) test_store)
     = Inr (address_response 1 ''street updated'' ''city updated'' ''province updated''
              ''country updated'' ''2222'')"
    by (simp add: update_unfold example_defs model_defs)
  from update_overwrites_all_fields [OF ok]
  have len: "length (addresses (store_of (update test_user (test_update 1 1) test_store)))
               = length (addresses test_store)"
    and rows: "\<forall>n < length (addresses test_store).
            addresses (store_of (update test_user (test_update 1 1) test_store)) ! n =
              (if Address.id (addresses test_store ! n) = UpdateAddressRequest.id (test_update 1 1)
               then \<lparr> Address.id = UpdateAddressRequest.id (test_update 1 1),
                      Address.contact_id = UpdateAddressRequest.contact_id (test_update 1 1),
                      Address.street = UpdateAddressRequest.street (test_update 1 1),
                      Address.city = UpdateAddressRequest.city (test_update 1 1),
                      Address.province = UpdateAddressRequest.province (test_update 1 1),
                      Address.country = UpdateAddressRequest.country (test_update 1 1),
                      Address.postal_code = UpdateAddressRequest.postal_code (test_update 1 1) \<rparr>
               else addresses test_store ! n)"
    by blast+
  have two: "length (addresses test_store) = 2" by (simp add: example_defs)
  from rows two have r0: "addresses (store_of (update test_user (test_update 1 1) test_store)) ! 0
      = address_row 1 1 ''street updated'' ''city updated'' ''province updated''
          ''country updated'' ''2222''"
    by (simp add: example_defs)
  from rows two have r1: "addresses (store_of (update test_user (test_update 1 1) test_store)) ! 1
      = other_address"
    by (simp add: example_defs)
  from len two have l2: "length (addresses (store_of (update test_user (test_update 1 1) test_store))) = 2"
    by simp
  have "addresses (store_of (update test_user (test_update 1 1) test_store))
     = [addresses (store_of (update test_user (test_update 1 1) test_store)) ! 0,
        addresses (store_of (update test_user (test_update 1 1) test_store)) ! 1]"
    using l2 by (auto simp add: list_eq_iff_nth_eq less_Suc_eq numeral_2_eq_2)
  with r0 r1 ok show ?thesis by simp
qed

text \<open>
  C7. When an update succeeds, the same update applied to the resulting store succeeds
  again with the same response and leaves that store as it is: the stored values after two
  applications are those after one.
\<close>

theorem update_twice_same_as_once:
  assumes ok: "result_of (update user u s) = Inr resp"
  shows "result_of (update user u (store_of (update user u s))) = Inr resp
       \<and> store_of (update user u (store_of (update user u s))) = store_of (update user u s)"
proof (cases "find (\<lambda>a. Address.id a = UpdateAddressRequest.id u
                        \<and> Address.contact_id a = UpdateAddressRequest.contact_id u) (addresses s)")
  case None
  with ok show ?thesis by (simp add: update_unfold split: if_splits)
next
  case (Some a)
  let ?f = "\<lambda>x. if Address.id x = UpdateAddressRequest.id u then set_columns u x else x"
  let ?P = "\<lambda>a. Address.id a = UpdateAddressRequest.id u
                        \<and> Address.contact_id a = UpdateAddressRequest.contact_id u"
  from find_Some_mem [OF Some] have a: "a \<in> set (addresses s)" "?P a" by simp_all
  have idem: "map ?f (map ?f (addresses s)) = map ?f (addresses s)"
    by (simp add: set_columns_eq)
  have "?f a \<in> set (map ?f (addresses s))" using a by (simp del: map_eq_conv)
  moreover have "?P (?f a)" using a by (simp add: set_columns_eq)
  ultimately have "find ?P (map ?f (addresses s)) \<noteq> None"
    by (auto simp add: find_None_iff simp del: set_map)
  then obtain b where b: "find ?P (map ?f (addresses s)) = Some b" by blast
  from ok Some b idem show ?thesis
    by (simp add: update_unfold set_columns_eq toAddressResponse_def split: if_splits)
qed

text \<open>
  The update of the tests changes the example store once and not a second time.
\<close>

theorem update_twice_same_as_once_witness:
  "result_of (update test_user (test_update 1 1) test_store)
     = Inr (address_response 1 ''street updated'' ''city updated'' ''province updated''
              ''country updated'' ''2222'')
   \<and> result_of (update test_user (test_update 1 1)
        (store_of (update test_user (test_update 1 1) test_store)))
     = Inr (address_response 1 ''street updated'' ''city updated'' ''province updated''
              ''country updated'' ''2222'')
   \<and> store_of (update test_user (test_update 1 1)
        (store_of (update test_user (test_update 1 1) test_store)))
     = store_of (update test_user (test_update 1 1) test_store)
   \<and> store_of (update test_user (test_update 1 1) test_store) \<noteq> test_store"
proof -
  have ok: "result_of (update test_user (test_update 1 1) test_store)
     = Inr (address_response 1 ''street updated'' ''city updated'' ''province updated''
              ''country updated'' ''2222'')"
    by (simp add: update_unfold example_defs model_defs)
  have changed: "store_of (update test_user (test_update 1 1) test_store) \<noteq> test_store"
    by (simp add: update_unfold example_defs model_defs)
  from update_twice_same_as_once [OF ok] ok changed show ?thesis by blast
qed

subsection \<open>Order of the steps\<close>

text \<open>
  The collaborators read the store and leave it as it is; they make no call that the
  trace of a method records.
\<close>

lemma validate_CREATE_reads: "validate_CREATE c s = (result_of (validate_CREATE c s), s, [])"
  by (simp add: validate_CREATE_def returns_def throws_def)

lemma validate_GET_reads: "validate_GET g s = (result_of (validate_GET g s), s, [])"
  by (simp add: validate_GET_def returns_def)

lemma validate_UPDATE_reads: "validate_UPDATE u s = (result_of (validate_UPDATE u s), s, [])"
  by (simp add: validate_UPDATE_def returns_def throws_def)

lemma validate_REMOVE_reads: "validate_REMOVE r s = (result_of (validate_REMOVE r s), s, [])"
  by (simp add: validate_REMOVE_def returns_def)

lemma checkContactMustExists_reads:
  "checkContactMustExists n k s = (result_of (checkContactMustExists n k s), s, [])"
  by (simp add: checkContactMustExists_def returns_def throws_def)

lemma checkAddressMustExists_reads:
  "checkAddressMustExists i k s = (result_of (checkAddressMustExists i k s), s, [])"
  by (simp add: checkAddressMustExists_def address_findFirst_def service_defs
      split: option.splits)

lemma checkAddressMustExists_found:
  "result_of (checkAddressMustExists i k s) = Inr a \<Longrightarrow>
     find (\<lambda>x. Address.id x = i \<and> Address.contact_id x = k) (addresses s) = Some a"
  by (simp add: checkAddressMustExists_def address_findFirst_def service_defs
      split: option.splits)

lemmas collaborator_defs =
  validate_CREATE_def validate_GET_def validate_UPDATE_def validate_REMOVE_def
  checkContactMustExists_def checkAddressMustExists_def address_findFirst_def
  address_findMany_def address_create_def address_update_def address_delete_def
  returns_def throws_def and_then_def

text \<open>
  C8. Create, get, update and remove run their steps in one order, and the first step that
  fails ends the operation: nothing after it is called and the store is the one the
  operation was given.
  \<^item> When validation fails, the outcome is that failure, whatever the contact and the address.
  \<^item> When validation passes and the contact check fails, the outcome is that failure,
    whatever the address.
  \<^item> For get, update and remove, when both pass and the address check fails, the outcome
    is that failure.
  \<^item> When every check passes, create, update and remove apply their one write to the store
    they were given, get writes nothing, and the response is the mapping of the row the
    write (for get: the address check) returned.
  List makes no validation call: it checks the contact, reads the rows of the contact and
  maps each of them; when the contact check fails it has made that call alone.
\<close>

theorem steps_run_in_order:
  "(\<forall>e. result_of (validate_CREATE c s) = Inl e
        \<longrightarrow> create user c s = (Inl e, s, [Validate]))
   \<and> (\<forall>c' e. result_of (validate_CREATE c s) = Inr c'
          \<and> result_of (checkContactMustExists (User.username user)
                (CreateAddressRequest.contact_id c') s) = Inl e
        \<longrightarrow> create user c s = (Inl e, s, [Validate, CheckContactMustExists]))
   \<and> (\<forall>c'. result_of (validate_CREATE c s) = Inr c'
          \<and> result_of (checkContactMustExists (User.username user)
                (CreateAddressRequest.contact_id c') s) = Inr ()
        \<longrightarrow> (\<exists>a. result_of (address_create c' s) = Inr a
              \<and> create user c s =
                  (Inr (toAddressResponse a), store_of (address_create c' s),
                   [Validate, CheckContactMustExists, PrismaCreate, ToAddressResponse])))
   \<and> (\<forall>e. result_of (validate_GET g s) = Inl e
        \<longrightarrow> get user g s = (Inl e, s, [Validate]))
   \<and> (\<forall>g' e. result_of (validate_GET g s) = Inr g'
          \<and> result_of (checkContactMustExists (User.username user)
                (GetAddressRequest.contact_id g') s) = Inl e
        \<longrightarrow> get user g s = (Inl e, s, [Validate, CheckContactMustExists]))
   \<and> (\<forall>g' e. result_of (validate_GET g s) = Inr g'
          \<and> result_of (checkContactMustExists (User.username user)
                (GetAddressRequest.contact_id g') s) = Inr ()
          \<and> result_of (checkAddressMustExists (GetAddressRequest.address_id g')
                (GetAddressRequest.contact_id g') s) = Inl e
        \<longrightarrow> get user g s =
              (Inl e, s, [Validate, CheckContactMustExists, CheckAddressMustExists]))
   \<and> (\<forall>g' a. result_of (validate_GET g s) = Inr g'
          \<and> result_of (checkContactMustExists (User.username user)
                (GetAddressRequest.contact_id g') s) = Inr ()
          \<and> result_of (checkAddressMustExists (GetAddressRequest.address_id g')
                (GetAddressRequest.contact_id g') s) = Inr a
        \<longrightarrow> get user g s =
              (Inr (toAddressResponse a), s,
               [Validate, CheckContactMustExists, CheckAddressMustExists, ToAddressResponse]))
   \<and> (\<forall>e. result_of (validate_UPDATE u s) = Inl e
        \<longrightarrow> update user u s = (Inl e, s, [Validate]))
   \<and> (\<forall>u' e. result_of (validate_UPDATE u s) = Inr u'
          \<and> result_of (checkContactMustExists (User.username user)
                (UpdateAddressRequest.contact_id u') s) = Inl e
        \<longrightarrow> update user u s = (Inl e, s, [Validate, CheckContactMustExists]))
   \<and> (\<forall>u' e. result_of (validate_UPDATE u s) = Inr u'
          \<and> result_of (checkContactMustExists (User.username user)
                (UpdateAddressRequest.contact_id u') s) = Inr ()
          \<and> result_of (checkAddressMustExists (UpdateAddressRequest.id u')
                (UpdateAddressRequest.contact_id u') s) = Inl e
        \<longrightarrow> update user u s =
              (Inl e, s, [Validate, CheckContactMustExists, CheckAddressMustExists]))
   \<and> (\<forall>u' a. result_of (validate_UPDATE u s) = Inr u'
          \<and> result_of (checkContactMustExists (User.username user)
                (UpdateAddressRequest.contact_id u') s) = Inr ()
          \<and> result_of (checkAddressMustExists (UpdateAddressRequest.id u')
                (UpdateAddressRequest.contact_id u') s) = Inr a
        \<longrightarrow> (\<exists>b. result_of (address_update (Address.id a) u' s) = Inr b
              \<and> update user u s =
                  (Inr (toAddressResponse b), store_of (address_update (Address.id a) u' s),
                   [Validate, CheckContactMustExists, CheckAddressMustExists, PrismaUpdate,
                    ToAddressResponse])))
   \<and> (\<forall>e. result_of (validate_REMOVE r s) = Inl e
        \<longrightarrow> remove user r s = (Inl e, s, [Validate]))
   \<and> (\<forall>r' e. result_of (validate_REMOVE r s) = Inr r'
          \<and> result_of (checkContactMustExists (User.username user)
                (RemoveAddressRequest.contact_id r') s) = Inl e
        \<longrightarrow> remove user r s = (Inl e, s, [Validate, CheckContactMustExists]))
   \<and> (\<forall>r' e. result_of (validate_REMOVE r s) = Inr r'
          \<and> result_of (checkContactMustExists (User.username user)
                (RemoveAddressRequest.contact_id r') s) = Inr ()
          \<and> result_of (checkAddressMustExists (RemoveAddressRequest.address_id r)
                (RemoveAddressRequest.contact_id r) s) = Inl e
        \<longrightarrow> remove user r s =
              (Inl e, s, [Validate, CheckContactMustExists, CheckAddressMustExists]))
   \<and> (\<forall>r' a. result_of (validate_REMOVE r s) = Inr r'
          \<and> result_of (checkContactMustExists (User.username user)
                (RemoveAddressRequest.contact_id r') s) = Inr ()
          \<and> result_of (checkAddressMustExists (RemoveAddressRequest.address_id r)
                (RemoveAddressRequest.contact_id r) s) = Inr a
        \<longrightarrow> (\<exists>b. result_of (address_delete (RemoveAddressRequest.address_id r') s) = Inr b
              \<and> remove user r s =
                  (Inr (toAddressResponse b),
                   store_of (address_delete (RemoveAddressRequest.address_id r') s),
                   [Validate, CheckContactMustExists, CheckAddressMustExists, PrismaDelete,
                    ToAddressResponse])))
   \<and> (\<forall>e. result_of (checkContactMustExists (User.username user) k s) = Inl e
        \<longrightarrow> list user k s = (Inl e, s, [CheckContactMustExists]))
   \<and> (result_of (checkContactMustExists (User.username user) k s) = Inr ()
        \<longrightarrow> (\<exists>found. result_of (address_findMany k s) = Inr found
              \<and> list user k s =
                  (Inr (map toAddressResponse found), s,
                   [CheckContactMustExists, PrismaFindMany]
                     @ replicate (length found) ToAddressResponse)))
   \<and> Validate \<notin> set (calls_of (list user k s))"
proof (intro conjI allI impI)
  fix e assume "result_of (validate_CREATE c s) = Inl e"
  then have "validate_CREATE c s = (Inl e, s, [])"
    using validate_CREATE_reads [of c s] by simp
  then show "create user c s = (Inl e, s, [Validate])"
    by (simp add: create_def and_then_def called_def)
next
  fix c' e
  assume h: "result_of (validate_CREATE c s) = Inr c'
          \<and> result_of (checkContactMustExists (User.username user)
                (CreateAddressRequest.contact_id c') s) = Inl e"
  then have v: "validate_CREATE c s = (Inr c', s, [])"
    using validate_CREATE_reads [of c s] by simp
  from h have k: "checkContactMustExists (User.username user)
                (CreateAddressRequest.contact_id c') s = (Inl e, s, [])"
    using checkContactMustExists_reads
            [of "User.username user" "CreateAddressRequest.contact_id c'" s] by simp
  from v k show "create user c s = (Inl e, s, [Validate, CheckContactMustExists])"
    by (simp add: create_def and_then_def called_def)
next
  fix c'
  assume h: "result_of (validate_CREATE c s) = Inr c'
          \<and> result_of (checkContactMustExists (User.username user)
                (CreateAddressRequest.contact_id c') s) = Inr ()"
  then have v: "validate_CREATE c s = (Inr c', s, [])"
    using validate_CREATE_reads [of c s] by simp
  from h have k: "checkContactMustExists (User.username user)
                (CreateAddressRequest.contact_id c') s = (Inr (), s, [])"
    using checkContactMustExists_reads
            [of "User.username user" "CreateAddressRequest.contact_id c'" s] by simp
  from v k show "\<exists>a. result_of (address_create c' s) = Inr a
              \<and> create user c s =
                  (Inr (toAddressResponse a), store_of (address_create c' s),
                   [Validate, CheckContactMustExists, PrismaCreate, ToAddressResponse])"
    by (simp add: create_def and_then_def called_def address_create_def returns_def Let_def)
next
  fix e assume "result_of (validate_GET g s) = Inl e"
  then show "get user g s = (Inl e, s, [Validate])"
    by (simp add: validate_GET_def returns_def)
next
  fix g' e
  assume h: "result_of (validate_GET g s) = Inr g'
          \<and> result_of (checkContactMustExists (User.username user)
                (GetAddressRequest.contact_id g') s) = Inl e"
  then have v: "validate_GET g s = (Inr g', s, [])"
    using validate_GET_reads [of g s] by simp
  from h have k: "checkContactMustExists (User.username user)
                (GetAddressRequest.contact_id g') s = (Inl e, s, [])"
    using checkContactMustExists_reads
            [of "User.username user" "GetAddressRequest.contact_id g'" s] by simp
  from v k show "get user g s = (Inl e, s, [Validate, CheckContactMustExists])"
    by (simp add: get_def and_then_def called_def)
next
  fix g' e
  assume h: "result_of (validate_GET g s) = Inr g'
          \<and> result_of (checkContactMustExists (User.username user)
                (GetAddressRequest.contact_id g') s) = Inr ()
          \<and> result_of (checkAddressMustExists (GetAddressRequest.address_id g')
                (GetAddressRequest.contact_id g') s) = Inl e"
  then have v: "validate_GET g s = (Inr g', s, [])"
    using validate_GET_reads [of g s] by simp
  from h have k: "checkContactMustExists (User.username user)
                (GetAddressRequest.contact_id g') s = (Inr (), s, [])"
    using checkContactMustExists_reads
            [of "User.username user" "GetAddressRequest.contact_id g'" s] by simp
  from h have a: "checkAddressMustExists (GetAddressRequest.address_id g')
                (GetAddressRequest.contact_id g') s = (Inl e, s, [])"
    using checkAddressMustExists_reads
            [of "GetAddressRequest.address_id g'" "GetAddressRequest.contact_id g'" s] by simp
  from v k a show "get user g s =
              (Inl e, s, [Validate, CheckContactMustExists, CheckAddressMustExists])"
    by (simp add: get_def and_then_def called_def)
next
  fix g' a
  assume h: "result_of (validate_GET g s) = Inr g'
          \<and> result_of (checkContactMustExists (User.username user)
                (GetAddressRequest.contact_id g') s) = Inr ()
          \<and> result_of (checkAddressMustExists (GetAddressRequest.address_id g')
                (GetAddressRequest.contact_id g') s) = Inr a"
  then have v: "validate_GET g s = (Inr g', s, [])"
    using validate_GET_reads [of g s] by simp
  from h have k: "checkContactMustExists (User.username user)
                (GetAddressRequest.contact_id g') s = (Inr (), s, [])"
    using checkContactMustExists_reads
            [of "User.username user" "GetAddressRequest.contact_id g'" s] by simp
  from h have a: "checkAddressMustExists (GetAddressRequest.address_id g')
                (GetAddressRequest.contact_id g') s = (Inr a, s, [])"
    using checkAddressMustExists_reads
            [of "GetAddressRequest.address_id g'" "GetAddressRequest.contact_id g'" s] by simp
  from v k a show "get user g s =
              (Inr (toAddressResponse a), s,
               [Validate, CheckContactMustExists, CheckAddressMustExists, ToAddressResponse])"
    by (simp add: get_def and_then_def called_def returns_def)
next
  fix e assume "result_of (validate_UPDATE u s) = Inl e"
  then have "validate_UPDATE u s = (Inl e, s, [])"
    using validate_UPDATE_reads [of u s] by simp
  then show "update user u s = (Inl e, s, [Validate])"
    by (simp add: update_def and_then_def called_def)
next
  fix u' e
  assume h: "result_of (validate_UPDATE u s) = Inr u'
          \<and> result_of (checkContactMustExists (User.username user)
                (UpdateAddressRequest.contact_id u') s) = Inl e"
  then have v: "validate_UPDATE u s = (Inr u', s, [])"
    using validate_UPDATE_reads [of u s] by simp
  from h have k: "checkContactMustExists (User.username user)
                (UpdateAddressRequest.contact_id u') s = (Inl e, s, [])"
    using checkContactMustExists_reads
            [of "User.username user" "UpdateAddressRequest.contact_id u'" s] by simp
  from v k show "update user u s = (Inl e, s, [Validate, CheckContactMustExists])"
    by (simp add: update_def and_then_def called_def)
next
  fix u' e
  assume h: "result_of (validate_UPDATE u s) = Inr u'
          \<and> result_of (checkContactMustExists (User.username user)
                (UpdateAddressRequest.contact_id u') s) = Inr ()
          \<and> result_of (checkAddressMustExists (UpdateAddressRequest.id u')
                (UpdateAddressRequest.contact_id u') s) = Inl e"
  then have v: "validate_UPDATE u s = (Inr u', s, [])"
    using validate_UPDATE_reads [of u s] by simp
  from h have k: "checkContactMustExists (User.username user)
                (UpdateAddressRequest.contact_id u') s = (Inr (), s, [])"
    using checkContactMustExists_reads
            [of "User.username user" "UpdateAddressRequest.contact_id u'" s] by simp
  from h have a: "checkAddressMustExists (UpdateAddressRequest.id u') (UpdateAddressRequest.contact_id u') s = (Inl e, s, [])"
    using checkAddressMustExists_reads [of "UpdateAddressRequest.id u'" "UpdateAddressRequest.contact_id u'" s] by simp
  from v k a show "update user u s =
              (Inl e, s, [Validate, CheckContactMustExists, CheckAddressMustExists])"
    by (simp add: update_def and_then_def called_def)
next
  fix u' a
  assume h: "result_of (validate_UPDATE u s) = Inr u'
          \<and> result_of (checkContactMustExists (User.username user)
                (UpdateAddressRequest.contact_id u') s) = Inr ()
          \<and> result_of (checkAddressMustExists (UpdateAddressRequest.id u')
                (UpdateAddressRequest.contact_id u') s) = Inr a"
  then have v: "validate_UPDATE u s = (Inr u', s, [])"
    using validate_UPDATE_reads [of u s] by simp
  from h have k: "checkContactMustExists (User.username user)
                (UpdateAddressRequest.contact_id u') s = (Inr (), s, [])"
    using checkContactMustExists_reads
            [of "User.username user" "UpdateAddressRequest.contact_id u'" s] by simp
  from h have a: "checkAddressMustExists (UpdateAddressRequest.id u') (UpdateAddressRequest.contact_id u') s = (Inr a, s, [])"
    using checkAddressMustExists_reads [of "UpdateAddressRequest.id u'" "UpdateAddressRequest.contact_id u'" s] by simp
  from h have f: "find (\<lambda>x. Address.id x = UpdateAddressRequest.id u' \<and> Address.contact_id x = UpdateAddressRequest.contact_id u')
                      (addresses s) = Some a"
    by (simp add: checkAddressMustExists_found)
  from find_Some_mem [OF f] have ida: "Address.id a = UpdateAddressRequest.id u'" by simp
  from find_weaken [OF f, of "\<lambda>x. Address.id x = UpdateAddressRequest.id u'"]
  obtain b where b: "find (\<lambda>x. Address.id x = UpdateAddressRequest.id u') (addresses s) = Some b"
    by auto
  have st: "address_update (Address.id a) u' s =
      (Inr (set_columns u' b),
       s\<lparr> addresses := map (\<lambda>r. if Address.id r = Address.id a then set_columns u' r else r)
                          (addresses s) \<rparr>, [])"
    using b ida by (simp add: address_update_def returns_def)
  from v k a st show "(\<exists>b. result_of (address_update (Address.id a) u' s) = Inr b
              \<and> update user u s =
                  (Inr (toAddressResponse b), store_of (address_update (Address.id a) u' s),
                   [Validate, CheckContactMustExists, CheckAddressMustExists, PrismaUpdate,
                    ToAddressResponse]))"
    by (simp add: update_def and_then_def called_def returns_def)
next
  fix e assume "result_of (validate_REMOVE r s) = Inl e"
  then show "remove user r s = (Inl e, s, [Validate])"
    by (simp add: validate_REMOVE_def returns_def)
next
  fix r' e
  assume h: "result_of (validate_REMOVE r s) = Inr r'
          \<and> result_of (checkContactMustExists (User.username user)
                (RemoveAddressRequest.contact_id r') s) = Inl e"
  then have v: "validate_REMOVE r s = (Inr r', s, [])"
    using validate_REMOVE_reads [of r s] by simp
  from h have k: "checkContactMustExists (User.username user)
                (RemoveAddressRequest.contact_id r') s = (Inl e, s, [])"
    using checkContactMustExists_reads
            [of "User.username user" "RemoveAddressRequest.contact_id r'" s] by simp
  from v k show "remove user r s = (Inl e, s, [Validate, CheckContactMustExists])"
    by (simp add: remove_def and_then_def called_def)
next
  fix r' e
  assume h: "result_of (validate_REMOVE r s) = Inr r'
          \<and> result_of (checkContactMustExists (User.username user)
                (RemoveAddressRequest.contact_id r') s) = Inr ()
          \<and> result_of (checkAddressMustExists (RemoveAddressRequest.address_id r)
                (RemoveAddressRequest.contact_id r) s) = Inl e"
  then have v: "validate_REMOVE r s = (Inr r', s, [])"
    using validate_REMOVE_reads [of r s] by simp
  from h have k: "checkContactMustExists (User.username user)
                (RemoveAddressRequest.contact_id r') s = (Inr (), s, [])"
    using checkContactMustExists_reads
            [of "User.username user" "RemoveAddressRequest.contact_id r'" s] by simp
  from h have a: "checkAddressMustExists (RemoveAddressRequest.address_id r)
                (RemoveAddressRequest.contact_id r) s = (Inl e, s, [])"
    using checkAddressMustExists_reads
            [of "RemoveAddressRequest.address_id r" "RemoveAddressRequest.contact_id r" s]
    by simp
  from v k a show "remove user r s =
              (Inl e, s, [Validate, CheckContactMustExists, CheckAddressMustExists])"
    by (simp add: remove_def and_then_def called_def)
next
  fix r' a
  assume h: "result_of (validate_REMOVE r s) = Inr r'
          \<and> result_of (checkContactMustExists (User.username user)
                (RemoveAddressRequest.contact_id r') s) = Inr ()
          \<and> result_of (checkAddressMustExists (RemoveAddressRequest.address_id r)
                (RemoveAddressRequest.contact_id r) s) = Inr a"
  then have v: "validate_REMOVE r s = (Inr r', s, [])"
    using validate_REMOVE_reads [of r s] by simp
  from h have same: "r' = r" by (simp add: validate_REMOVE_def returns_def)
  from h have k: "checkContactMustExists (User.username user)
                (RemoveAddressRequest.contact_id r') s = (Inr (), s, [])"
    using checkContactMustExists_reads
            [of "User.username user" "RemoveAddressRequest.contact_id r'" s] by simp
  from h have a: "checkAddressMustExists (RemoveAddressRequest.address_id r)
                (RemoveAddressRequest.contact_id r) s = (Inr a, s, [])"
    using checkAddressMustExists_reads
            [of "RemoveAddressRequest.address_id r" "RemoveAddressRequest.contact_id r" s]
    by simp
  from h have f: "find (\<lambda>x. Address.id x = RemoveAddressRequest.address_id r
                        \<and> Address.contact_id x = RemoveAddressRequest.contact_id r)
                    (addresses s) = Some a"
    by (simp add: checkAddressMustExists_found)
  from find_weaken [OF f, of "\<lambda>x. Address.id x = RemoveAddressRequest.address_id r"]
  obtain b where b: "find (\<lambda>x. Address.id x = RemoveAddressRequest.address_id r) (addresses s)
                       = Some b"
    by auto
  have st: "address_delete (RemoveAddressRequest.address_id r') s =
      (Inr b,
       s\<lparr> addresses := filter (\<lambda>x. Address.id x \<noteq> RemoveAddressRequest.address_id r')
                          (addresses s) \<rparr>, [])"
    using b same by (simp add: address_delete_def returns_def)
  from v k a st
  show "\<exists>b. result_of (address_delete (RemoveAddressRequest.address_id r') s) = Inr b
              \<and> remove user r s =
                  (Inr (toAddressResponse b),
                   store_of (address_delete (RemoveAddressRequest.address_id r') s),
                   [Validate, CheckContactMustExists, CheckAddressMustExists, PrismaDelete,
                    ToAddressResponse])"
    by (simp add: remove_def and_then_def called_def returns_def)
next
  fix e assume h: "result_of (checkContactMustExists (User.username user) k s) = Inl e"
  then have "checkContactMustExists (User.username user) k s = (Inl e, s, [])"
    using checkContactMustExists_reads [of "User.username user" k s] by simp
  then show "list user k s = (Inl e, s, [CheckContactMustExists])"
    by (simp add: list_def and_then_def called_def)
next
  assume h: "result_of (checkContactMustExists (User.username user) k s) = Inr ()"
  then have "checkContactMustExists (User.username user) k s = (Inr (), s, [])"
    using checkContactMustExists_reads [of "User.username user" k s] by simp
  then show "\<exists>found. result_of (address_findMany k s) = Inr found
              \<and> list user k s =
                  (Inr (map toAddressResponse found), s,
                   [CheckContactMustExists, PrismaFindMany]
                     @ replicate (length found) ToAddressResponse)"
    by (simp add: list_def and_then_def called_def address_findMany_def returns_def
        map_called_def map_replicate_const)
next
  show "Validate \<notin> set (calls_of (list user k s))"
    by (auto simp add: list_unfold)
qed

text \<open>
  On the example store: an update stopped by validation although its contact does not
  exist, a create stopped by the contact check, a get stopped by the address check, and
  the five operations running to their end.
\<close>

theorem steps_run_in_order_witness:
  "update test_user (update_request 9 3 [] ''city updated'' ''province updated''
       ''country updated'' ''2222'') test_store
     = (Inl ValidationError, test_store, [Validate])
   \<and> create test_user (test_create 3) test_store
     = (Inl (NotFoundError ''Contact is not found''), test_store,
        [Validate, CheckContactMustExists])
   \<and> get test_user (get_request 2 1) test_store
     = (Inl (NotFoundError ''Address is not found''), test_store,
        [Validate, CheckContactMustExists, CheckAddressMustExists])
   \<and> get test_user (get_request 2 2) test_store
     = (Inr (toAddressResponse other_address), test_store,
        [Validate, CheckContactMustExists, CheckAddressMustExists, ToAddressResponse])
   \<and> remove test_user (remove_request 1 1) test_store
     = (Inr (toAddressResponse test_address), test_store\<lparr>addresses := [other_address]\<rparr>,
        [Validate, CheckContactMustExists, CheckAddressMustExists, PrismaDelete,
         ToAddressResponse])
   \<and> create test_user (test_create 1) test_store
     = (Inr (address_response 3 ''street test'' ''city test'' ''province test''
               ''country test'' ''1111''),
        test_store\<lparr>addresses := [test_address, other_address,
            address_row 3 1 ''street test'' ''city test'' ''province test'' ''country test''
              ''1111''],
          next_id := 4\<rparr>,
        [Validate, CheckContactMustExists, PrismaCreate, ToAddressResponse])
   \<and> update test_user (test_update 1 1) test_store
     = (Inr (address_response 1 ''street updated'' ''city updated'' ''province updated''
               ''country updated'' ''2222''),
        test_store\<lparr>addresses := [address_row 1 1 ''street updated'' ''city updated''
            ''province updated'' ''country updated'' ''2222'', other_address]\<rparr>,
        [Validate, CheckContactMustExists, CheckAddressMustExists, PrismaUpdate,
         ToAddressResponse])
   \<and> list test_user 3 test_store
     = (Inl (NotFoundError ''Contact is not found''), test_store, [CheckContactMustExists])
   \<and> list test_user 1 test_store
     = (Inr [toAddressResponse test_address], test_store,
        [CheckContactMustExists, PrismaFindMany, ToAddressResponse])"
proof -
  note first = steps_run_in_order
    [of "test_create 3" test_store test_user "get_request 2 1"
        "update_request 9 3 [] ''city updated'' ''province updated'' ''country updated'' ''2222''"
        "remove_request 1 1" 3]
  note second = steps_run_in_order
    [of "test_create 1" test_store test_user "get_request 2 2" "test_update 1 1"
        "remove_request 1 1" 1]
  have u: "update test_user (update_request 9 3 [] ''city updated'' ''province updated''
       ''country updated'' ''2222'') test_store
     = (Inl ValidationError, test_store, [Validate])"
  proof -
    have "result_of (validate_UPDATE (update_request 9 3 [] ''city updated''
        ''province updated'' ''country updated'' ''2222'') test_store) = Inl ValidationError"
      by (simp add: collaborator_defs example_defs model_defs)
    with first show ?thesis by (elim conjE) metis
  qed
  have c: "create test_user (test_create 3) test_store
     = (Inl (NotFoundError ''Contact is not found''), test_store,
        [Validate, CheckContactMustExists])"
  proof -
    have "result_of (validate_CREATE (test_create 3) test_store) = Inr (test_create 3)
       \<and> result_of (checkContactMustExists (User.username test_user)
            (CreateAddressRequest.contact_id (test_create 3)) test_store)
           = Inl (NotFoundError ''Contact is not found'')"
      by (simp add: collaborator_defs example_defs model_defs)
    with first show ?thesis by (elim conjE) metis
  qed
  have g1: "get test_user (get_request 2 1) test_store
     = (Inl (NotFoundError ''Address is not found''), test_store,
        [Validate, CheckContactMustExists, CheckAddressMustExists])"
  proof -
    have "result_of (validate_GET (get_request 2 1) test_store) = Inr (get_request 2 1)
       \<and> result_of (checkContactMustExists (User.username test_user)
            (GetAddressRequest.contact_id (get_request 2 1)) test_store) = Inr ()
       \<and> result_of (checkAddressMustExists (GetAddressRequest.address_id (get_request 2 1))
            (GetAddressRequest.contact_id (get_request 2 1)) test_store)
           = Inl (NotFoundError ''Address is not found'')"
      by (simp add: collaborator_defs example_defs model_defs)
    with first show ?thesis by (elim conjE) metis
  qed
  have g2: "get test_user (get_request 2 2) test_store
     = (Inr (toAddressResponse other_address), test_store,
        [Validate, CheckContactMustExists, CheckAddressMustExists, ToAddressResponse])"
  proof -
    have "result_of (validate_GET (get_request 2 2) test_store) = Inr (get_request 2 2)
       \<and> result_of (checkContactMustExists (User.username test_user)
            (GetAddressRequest.contact_id (get_request 2 2)) test_store) = Inr ()
       \<and> result_of (checkAddressMustExists (GetAddressRequest.address_id (get_request 2 2))
            (GetAddressRequest.contact_id (get_request 2 2)) test_store)
           = Inr other_address"
      by (simp add: collaborator_defs example_defs model_defs)
    with second show ?thesis by (elim conjE) metis
  qed
  have r: "remove test_user (remove_request 1 1) test_store
     = (Inr (toAddressResponse test_address), test_store\<lparr>addresses := [other_address]\<rparr>,
        [Validate, CheckContactMustExists, CheckAddressMustExists, PrismaDelete,
         ToAddressResponse])"
  proof -
    have h: "result_of (validate_REMOVE (remove_request 1 1) test_store)
               = Inr (remove_request 1 1)
       \<and> result_of (checkContactMustExists (User.username test_user)
            (RemoveAddressRequest.contact_id (remove_request 1 1)) test_store) = Inr ()
       \<and> result_of (checkAddressMustExists
            (RemoveAddressRequest.address_id (remove_request 1 1))
            (RemoveAddressRequest.contact_id (remove_request 1 1)) test_store)
           = Inr test_address"
      by (simp add: collaborator_defs example_defs model_defs)
    have d: "address_delete (RemoveAddressRequest.address_id (remove_request 1 1)) test_store
               = (Inr test_address, test_store\<lparr>addresses := [other_address]\<rparr>, [])"
      by (simp add: collaborator_defs example_defs model_defs)
    from second h obtain b where
      "result_of (address_delete (RemoveAddressRequest.address_id (remove_request 1 1))
         test_store) = Inr b"
      "remove test_user (remove_request 1 1) test_store =
         (Inr (toAddressResponse b),
          store_of (address_delete (RemoveAddressRequest.address_id (remove_request 1 1))
            test_store),
          [Validate, CheckContactMustExists, CheckAddressMustExists, PrismaDelete,
           ToAddressResponse])"
      by (elim conjE) metis
    with d show ?thesis by auto
  qed
  have l3: "list test_user 3 test_store
     = (Inl (NotFoundError ''Contact is not found''), test_store, [CheckContactMustExists])"
  proof -
    have "result_of (checkContactMustExists (User.username test_user) 3 test_store)
            = Inl (NotFoundError ''Contact is not found'')"
      by (simp add: collaborator_defs example_defs model_defs)
    with first show ?thesis by (elim conjE) metis
  qed
  have l1: "list test_user 1 test_store
     = (Inr [toAddressResponse test_address], test_store,
        [CheckContactMustExists, PrismaFindMany, ToAddressResponse])"
  proof -
    have h: "result_of (checkContactMustExists (User.username test_user) 1 test_store) = Inr ()"
      by (simp add: collaborator_defs example_defs model_defs)
    have f: "address_findMany 1 test_store = (Inr [test_address], test_store, [])"
      by (simp add: collaborator_defs example_defs model_defs)
    from second h obtain found where
      "result_of (address_findMany 1 test_store) = Inr found"
      "list test_user 1 test_store =
         (Inr (map toAddressResponse found), test_store,
          [CheckContactMustExists, PrismaFindMany]
            @ replicate (length found) ToAddressResponse)"
      by (elim conjE) metis
    with f show ?thesis by auto
  qed
  have c1: "create test_user (test_create 1) test_store
     = (Inr (address_response 3 ''street test'' ''city test'' ''province test''
               ''country test'' ''1111''),
        test_store\<lparr>addresses := [test_address, other_address,
            address_row 3 1 ''street test'' ''city test'' ''province test'' ''country test''
              ''1111''],
          next_id := 4\<rparr>,
        [Validate, CheckContactMustExists, PrismaCreate, ToAddressResponse])"
  proof -
    have h: "result_of (validate_CREATE (test_create 1) test_store) = Inr (test_create 1)
       \<and> result_of (checkContactMustExists (User.username test_user)
            (CreateAddressRequest.contact_id (test_create 1)) test_store) = Inr ()"
      by (simp add: collaborator_defs example_defs model_defs)
    have d: "address_create (test_create 1) test_store
               = (Inr (address_row 3 1 ''street test'' ''city test'' ''province test''
                    ''country test'' ''1111''),
                  test_store\<lparr>addresses := [test_address, other_address,
                      address_row 3 1 ''street test'' ''city test'' ''province test''
                        ''country test'' ''1111''],
                    next_id := 4\<rparr>, [])"
      by (simp add: collaborator_defs example_defs model_defs Let_def)
    from second h obtain a where
      "result_of (address_create (test_create 1) test_store) = Inr a"
      "create test_user (test_create 1) test_store =
         (Inr (toAddressResponse a), store_of (address_create (test_create 1) test_store),
          [Validate, CheckContactMustExists, PrismaCreate, ToAddressResponse])"
      by (elim conjE) metis
    with d show ?thesis by (auto simp add: toAddressResponse_def address_row_def address_response_def)
  qed
  have u1: "update test_user (test_update 1 1) test_store
     = (Inr (address_response 1 ''street updated'' ''city updated'' ''province updated''
               ''country updated'' ''2222''),
        test_store\<lparr>addresses := [address_row 1 1 ''street updated'' ''city updated''
            ''province updated'' ''country updated'' ''2222'', other_address]\<rparr>,
        [Validate, CheckContactMustExists, CheckAddressMustExists, PrismaUpdate,
         ToAddressResponse])"
  proof -
    have h: "result_of (validate_UPDATE (test_update 1 1) test_store) = Inr (test_update 1 1)
       \<and> result_of (checkContactMustExists (User.username test_user)
            (UpdateAddressRequest.contact_id (test_update 1 1)) test_store) = Inr ()
       \<and> result_of (checkAddressMustExists (UpdateAddressRequest.id (test_update 1 1))
            (UpdateAddressRequest.contact_id (test_update 1 1)) test_store) = Inr test_address"
      by (simp add: collaborator_defs example_defs model_defs)
    have d: "address_update (Address.id test_address) (test_update 1 1) test_store
               = (Inr (address_row 1 1 ''street updated'' ''city updated''
                    ''province updated'' ''country updated'' ''2222''),
                  test_store\<lparr>addresses := [address_row 1 1 ''street updated''
                      ''city updated'' ''province updated'' ''country updated'' ''2222'',
                      other_address]\<rparr>, [])"
      by (simp add: collaborator_defs example_defs model_defs)
    from second h obtain b where
      "result_of (address_update (Address.id test_address) (test_update 1 1) test_store)
         = Inr b"
      "update test_user (test_update 1 1) test_store =
         (Inr (toAddressResponse b),
          store_of (address_update (Address.id test_address) (test_update 1 1) test_store),
          [Validate, CheckContactMustExists, CheckAddressMustExists, PrismaUpdate,
           ToAddressResponse])"
      by (elim conjE) metis
    with d show ?thesis by (auto simp add: toAddressResponse_def address_row_def address_response_def)
  qed
  from u c g1 g2 r c1 u1 l3 l1 show ?thesis by blast
qed

text \<open>
  C8 for list as stated: a successful list of contact 1 has made three calls, none of
  which is a validation.
\<close>

theorem list_does_not_validate:
  "succeeded (result_of (list test_user 1 test_store))
   \<and> calls_of (list test_user 1 test_store)
        = [CheckContactMustExists, PrismaFindMany, ToAddressResponse]
   \<and> Validate \<notin> set (calls_of (list test_user 1 test_store))"
  by (simp add: list_unfold example_defs model_defs)

subsection \<open>Responses\<close>









subsection \<open>Remove deletes the matched row only\<close>

text \<open>
  C10. On a table with unique identifiers a successful remove deletes one row, which has
  the identifier and the contact of the request; the rest of the table, the contacts and the
  counter are unchanged, so every address of another contact is still there.
\<close>

theorem remove_deletes_only_the_matched_row:
  assumes inv: "unique_ids s"
    and ok: "result_of (remove user r s) = Inr resp"
  shows "\<exists>a \<in> set (addresses s).
           Address.id a = RemoveAddressRequest.address_id r
           \<and> Address.contact_id a = RemoveAddressRequest.contact_id r
           \<and> addresses (store_of (remove user r s)) = remove1 a (addresses s)
           \<and> contacts (store_of (remove user r s)) = contacts s
           \<and> next_id (store_of (remove user r s)) = next_id s
           \<and> (\<forall>b \<in> set (addresses s).
                 Address.contact_id b \<noteq> RemoveAddressRequest.contact_id r
                 \<longrightarrow> b \<in> set (addresses (store_of (remove user r s))))"
proof (cases "find (\<lambda>a. Address.id a = RemoveAddressRequest.address_id r
                        \<and> Address.contact_id a = RemoveAddressRequest.contact_id r) (addresses s)")
  case None
  with ok show ?thesis by (simp add: remove_unfold split: if_splits)
next
  case (Some a)
  from find_Some_mem [OF Some] have a: "a \<in> set (addresses s)"
    "Address.id a = RemoveAddressRequest.address_id r"
    "Address.contact_id a = RemoveAddressRequest.contact_id r" by simp_all
  from inv have d: "distinct (map Address.id (addresses s))" by (simp add: unique_ids_def)
  from filter_unique_key [OF d a(1)] a(2)
  have f: "filter (\<lambda>x. Address.id x \<noteq> RemoveAddressRequest.address_id r) (addresses s)
            = remove1 a (addresses s)" by simp
  from d have da: "distinct (addresses s)" by (simp add: distinct_map)
  have keep: "\<forall>b \<in> set (addresses s).
                 Address.contact_id b \<noteq> RemoveAddressRequest.contact_id r
                 \<longrightarrow> b \<in> set (remove1 a (addresses s))"
    using a da by auto
  from ok Some have st: "store_of (remove user r s) =
      s\<lparr>addresses := filter (\<lambda>x. Address.id x \<noteq> RemoveAddressRequest.address_id r) (addresses s)\<rparr>"
    by (simp add: remove_unfold split: if_splits option.splits)
  show ?thesis
    apply (rule bexI [of _ a])
    using a f keep st apply simp
    using a apply simp
    done
qed

text \<open>
  Removing address 1 of contact 1 from the example store leaves the address of contact 2.
\<close>

theorem remove_deletes_only_the_matched_row_witness:
  "unique_ids test_store
   \<and> result_of (remove test_user (remove_request 1 1) test_store)
        = Inr (toAddressResponse test_address)
   \<and> addresses (store_of (remove test_user (remove_request 1 1) test_store)) = [other_address]
   \<and> contacts (store_of (remove test_user (remove_request 1 1) test_store)) = contacts test_store
   \<and> next_id (store_of (remove test_user (remove_request 1 1) test_store)) = next_id test_store"
proof -
  have ok: "result_of (remove test_user (remove_request 1 1) test_store)
        = Inr (toAddressResponse test_address)"
    by (simp add: remove_unfold example_defs model_defs)
  from remove_deletes_only_the_matched_row [OF test_store_unique ok]
  obtain a where a: "a \<in> set (addresses test_store)"
    "Address.id a = RemoveAddressRequest.address_id (remove_request 1 1)"
    "addresses (store_of (remove test_user (remove_request 1 1) test_store))
       = remove1 a (addresses test_store)"
    "contacts (store_of (remove test_user (remove_request 1 1) test_store)) = contacts test_store"
    "next_id (store_of (remove test_user (remove_request 1 1) test_store)) = next_id test_store"
    by blast
  from a(1,2) have "a = test_address" by (auto simp add: example_defs)
  with a(3) have "addresses (store_of (remove test_user (remove_request 1 1) test_store))
       = [other_address]"
    by (simp add: example_defs)
  with a(4,5) ok test_store_unique show ?thesis by simp
qed

end
